theory Spec2Isabelle
  imports
    Main
    "HOL-Library.Char_ord"
    "HOL-Library.List_Lexorder"
    "HOL-Library.Product_Lexorder"
begin

section \<open>Documents of the event and registration collections\<close>

text \<open>
  The embedding follows \<^verbatim>\<open>src/models/Event.js\<close>, \<^verbatim>\<open>src/models/EventRegistration.js\<close>,
  \<^verbatim>\<open>src/controllers/eventController.js\<close> and \<^verbatim>\<open>src/routes/eventRoutes.js\<close>.
  A MongoDB ObjectId is a natural number. A Mongoose \<^verbatim>\<open>Number\<close> is an \<^typ>\<open>int\<close>
  (the handlers move the counter by \<^verbatim>\<open>$inc\<close> of 1 and -1 only); a \<^verbatim>\<open>String\<close> is a \<^typ>\<open>string\<close> of
  ASCII characters. A field with no default that may be absent is an \<^typ>\<open>'a option\<close>.
  The event fields kept are the ones a handler below reads, increments, filters or sorts
  by; description, time, location, organizer, currency, tags, image, schedule and the
  timestamps take part in no decision of these handlers and are left out, as are
  \<^verbatim>\<open>paymentId\<close> and \<^verbatim>\<open>notes\<close> of a registration, which no handler sets.
\<close>

type_synonym oid = nat

datatype event_status = EvDraft | EvPublished | EvCancelled | EvCompleted

datatype reg_status = Confirmed | RegCancelled | Waitlisted

datatype payment_status = Pending | Paid | Failed | Refunded

record event_doc =
  eid :: oid
  title :: string
  slug :: string
  date :: string
  fullDescription :: "string option"
  price :: int
  isFree :: bool
  maxAttendees :: "int option"
  currentAttendees :: int
  featured :: bool
  status :: event_status
  registrationOpen :: bool

record registration_doc =
  rid :: oid
  event :: oid
  firstName :: string
  lastName :: string
  email :: string
  phone :: "string option"
  accessibilityNeeds :: "string option"
  ticketId :: string
  regStatus :: reg_status
  paymentStatus :: payment_status
  amount :: int

text \<open>The database: both collections in insertion order.\<close>

record db =
  events :: "event_doc list"
  registrations :: "registration_doc list"

section \<open>Responses\<close>

record pagination =
  page :: int
  limit :: int
  total_count :: nat
  pages :: "int option"

datatype payload =
    NoData
  | RegistrationData registration_doc
  | WaitlistedData registration_doc
  | EventData event_doc
  | EventList "event_doc list" pagination
  | ValidationErrors "(string \<times> string) list"

record response =
  statusCode :: nat
  success :: bool
  message :: string
  payload :: payload

definition json :: "nat \<Rightarrow> bool \<Rightarrow> string \<Rightarrow> payload \<Rightarrow> response" where
  "json c ok msg d = \<lparr>statusCode = c, success = ok, message = msg, payload = d\<rparr>"

section \<open>The store's primitives\<close>

definition Event_findById :: "db \<Rightarrow> oid \<Rightarrow> event_doc option" where
  "Event_findById d i = find (\<lambda>e. eid e = i) (events d)"

text \<open>\<^verbatim>\<open>findByIdAndUpdate(id, { $inc: { currentAttendees: n } })\<close>: the one document with
  that id moves by \<open>n\<close>; no document with that id, nothing happens.\<close>

fun inc_currentAttendees :: "oid \<Rightarrow> int \<Rightarrow> event_doc list \<Rightarrow> event_doc list" where
  "inc_currentAttendees i n [] = []"
| "inc_currentAttendees i n (e # es) =
     (if eid e = i then e\<lparr>currentAttendees := currentAttendees e + n\<rparr> # es
      else e # inc_currentAttendees i n es)"

definition Event_findByIdAndUpdate_inc :: "oid \<Rightarrow> int \<Rightarrow> db \<Rightarrow> db" where
  "Event_findByIdAndUpdate_inc i n d = d\<lparr>events := inc_currentAttendees i n (events d)\<rparr>"

definition EventRegistration_findById :: "db \<Rightarrow> oid \<Rightarrow> registration_doc option" where
  "EventRegistration_findById d i = find (\<lambda>r. rid r = i) (registrations d)"

text \<open>\<^verbatim>\<open>registration.save()\<close> of a document that was loaded from the collection: the
  stored document with the same id is replaced. The document passed the schema's
  validators when it was created and has its ticket code, so the validation and the
  \<^verbatim>\<open>pre('save')\<close> hook that run again change nothing.\<close>

fun replace_registration :: "registration_doc \<Rightarrow> registration_doc list \<Rightarrow> registration_doc list" where
  "replace_registration r [] = []"
| "replace_registration r (x # xs) =
     (if rid x = rid r then r # xs else x # replace_registration r xs)"

definition EventRegistration_save :: "registration_doc \<Rightarrow> db \<Rightarrow> db" where
  "EventRegistration_save r d = d\<lparr>registrations := replace_registration r (registrations d)\<rparr>"

section \<open>The registration schema: setters, validators, ticket code\<close>

definition is_space :: "char \<Rightarrow> bool" where
  "is_space c = (c \<in> set [CHR '' '', CHR 0x09, CHR 0x0A, CHR 0x0B, CHR 0x0C, CHR 0x0D])"

definition trim :: "string \<Rightarrow> string" where
  "trim s = rev (dropWhile is_space (rev (dropWhile is_space s)))"

definition toLowerCase :: "string \<Rightarrow> string" where
  "toLowerCase s =
     map (\<lambda>c. if CHR ''A'' \<le> c \<and> c \<le> CHR ''Z'' then char_of (of_char c + (32::nat)) else c) s"

definition toUpperCase :: "string \<Rightarrow> string" where
  "toUpperCase s =
     map (\<lambda>c. if CHR ''a'' \<le> c \<and> c \<le> CHR ''z'' then char_of (of_char c - (32::nat)) else c) s"

text \<open>The schema's \<^verbatim>\<open>match: /^\S+@\S+\.\S+$/\<close>: no white space anywhere, an \<open>@\<close> after at
  least one character, and later a dot with at least one character on each side.\<close>

definition email_match :: "string \<Rightarrow> bool" where
  "email_match s =
     (list_all (\<lambda>c. \<not> is_space c) s \<and>
      list_ex (\<lambda>i. s ! i = CHR ''@'' \<and>
                 list_ex (\<lambda>j. s ! j = CHR ''.'') [i + 2 ..< length s - 1])
        [1 ..< length s])"

text \<open>The setter of the \<^verbatim>\<open>email\<close> path (\<^verbatim>\<open>trim\<close>, \<^verbatim>\<open>lowercase\<close>). Mongoose runs a path's
  setters when a document is built and when a query filter on the path is cast.\<close>

definition email_setter :: "string \<Rightarrow> string" where
  "email_setter s = toLowerCase (trim s)"

record registration_input =
  in_event :: oid
  in_firstName :: "string option"
  in_lastName :: "string option"
  in_email :: "string option"
  in_phone :: "string option"
  in_accessibilityNeeds :: "string option"
  in_status :: "reg_status option"
  in_amount :: "int option"
  in_paymentStatus :: "payment_status option"

text \<open>One validator chain per path, in the schema's order; the result is the message of
  the first validator that fails. The value is the path's value after its setters.\<close>

definition validate_required :: "string \<Rightarrow> nat \<Rightarrow> string \<Rightarrow> string option \<Rightarrow> string option" where
  "validate_required req_msg n len_msg v =
     (case v of
        None \<Rightarrow> Some req_msg
      | Some s \<Rightarrow>
          if s = [] then Some req_msg
          else if n < length s then Some len_msg
          else None)"

definition validate_optional :: "nat \<Rightarrow> string \<Rightarrow> string option \<Rightarrow> string option" where
  "validate_optional n len_msg v =
     (case v of
        None \<Rightarrow> None
      | Some s \<Rightarrow> if n < length s then Some len_msg else None)"

definition validate_email :: "string option \<Rightarrow> string option" where
  "validate_email v =
     (case validate_required ''Email is required'' 255 ''Email cannot exceed 255 characters'' v of
        Some m \<Rightarrow> Some m
      | None \<Rightarrow>
          (case v of
             None \<Rightarrow> None
           | Some s \<Rightarrow> if email_match s then None else Some ''Please enter a valid email''))"

definition path_error :: "string \<Rightarrow> string option \<Rightarrow> (string \<times> string) list" where
  "path_error p m = (case m of None \<Rightarrow> [] | Some msg \<Rightarrow> [(p, msg)])"

definition validate_registration :: "registration_input \<Rightarrow> (string \<times> string) list" where
  "validate_registration inp =
     path_error ''firstName''
       (validate_required ''First name is required'' 100
          ''First name cannot exceed 100 characters'' (map_option trim (in_firstName inp))) @
     path_error ''lastName''
       (validate_required ''Last name is required'' 100
          ''Last name cannot exceed 100 characters'' (map_option trim (in_lastName inp))) @
     path_error ''email'' (validate_email (map_option email_setter (in_email inp))) @
     path_error ''phone''
       (validate_optional 20 ''Phone number cannot exceed 20 characters''
          (map_option trim (in_phone inp))) @
     path_error ''accessibilityNeeds''
       (validate_optional 500 ''Accessibility needs cannot exceed 500 characters''
          (map_option trim (in_accessibilityNeeds inp)))"

text \<open>What the environment supplies to one \<^verbatim>\<open>create\<close>: the fresh ObjectId and the six
  base-36 characters \<^verbatim>\<open>Math.random().toString(36).substring(2, 8).toUpperCase()\<close>.\<close>

record env =
  newId :: oid
  randomPart :: string

text \<open>The \<^verbatim>\<open>pre('save')\<close> hook of the registration schema.\<close>

definition generateTicketId :: "env \<Rightarrow> db \<Rightarrow> oid \<Rightarrow> string" where
  "generateTicketId en d ev =
     (let eventPrefix =
        (case Event_findById d ev of
           Some eventDoc \<Rightarrow> toUpperCase (take 3 (slug eventDoc))
         | None \<Rightarrow> ''EVT'')
      in ''PV-'' @ eventPrefix @ ''-'' @ randomPart en)"

datatype create_error = ValidationError "(string \<times> string) list" | DuplicateKey

definition str_of :: "string option \<Rightarrow> string" where
  "str_of v = (case v of None \<Rightarrow> [] | Some s \<Rightarrow> s)"

text \<open>\<^verbatim>\<open>EventRegistration.create(fields)\<close>: setters and defaults, validation, the ticket
  hook, then the insert, which the unique indexes on \<^verbatim>\<open>_id\<close> and \<^verbatim>\<open>ticketId\<close> can refuse.\<close>

definition EventRegistration_create ::
  "env \<Rightarrow> registration_input \<Rightarrow> db \<Rightarrow> create_error + (registration_doc \<times> db)" where
  "EventRegistration_create en inp d =
     (let errs = validate_registration inp in
      if errs \<noteq> [] then Inl (ValidationError errs)
      else
        let doc =
          \<lparr>rid = newId en,
           event = in_event inp,
           firstName = trim (str_of (in_firstName inp)),
           lastName = trim (str_of (in_lastName inp)),
           email = email_setter (str_of (in_email inp)),
           phone = map_option trim (in_phone inp),
           accessibilityNeeds = map_option trim (in_accessibilityNeeds inp),
           ticketId = generateTicketId en d (in_event inp),
           regStatus = (case in_status inp of None \<Rightarrow> Confirmed | Some s \<Rightarrow> s),
           paymentStatus = (case in_paymentStatus inp of None \<Rightarrow> Pending | Some p \<Rightarrow> p),
           amount = (case in_amount inp of None \<Rightarrow> 0 | Some a \<Rightarrow> a)\<rparr>
        in if list_ex (\<lambda>r. rid r = rid doc \<or> ticketId r = ticketId doc) (registrations d)
           then Inl DuplicateKey
           else Inr (doc, d\<lparr>registrations := registrations d @ [doc]\<rparr>))"

text \<open>\<^verbatim>\<open>EventRegistration.findOne({ event: id, email })\<close>: the first registration of any
  status for that event and (cast) email. An absent email matches no stored document,
  since the path is required.\<close>

definition EventRegistration_findOne :: "db \<Rightarrow> oid \<Rightarrow> string option \<Rightarrow> registration_doc option" where
  "EventRegistration_findOne d i em =
     (case em of
        None \<Rightarrow> None
      | Some s \<Rightarrow> find (\<lambda>r. event r = i \<and> email r = email_setter s) (registrations d))"

section \<open>registerForEvent\<close>

record register_body =
  body_firstName :: "string option"
  body_lastName :: "string option"
  body_email :: "string option"
  body_phone :: "string option"
  body_accessibilityNeeds :: "string option"

text \<open>The handler's \<^verbatim>\<open>catch\<close>: a validation error is a 400, anything else a 500.\<close>

definition register_catch :: "create_error \<Rightarrow> response" where
  "register_catch e =
     (case e of
        ValidationError errs \<Rightarrow> json 400 False ''Validation failed'' (ValidationErrors errs)
      | DuplicateKey \<Rightarrow> json 500 False ''Server error while registering for event'' NoData)"

text \<open>\<^verbatim>\<open>event.maxAttendees && event.currentAttendees >= event.maxAttendees\<close>: \<^verbatim>\<open>null\<close> and
  \<open>0\<close> are falsy.\<close>

definition at_capacity :: "event_doc \<Rightarrow> bool" where
  "at_capacity ev =
     (case maxAttendees ev of
        None \<Rightarrow> False
      | Some m \<Rightarrow> m \<noteq> 0 \<and> m \<le> currentAttendees ev)"

definition waitlist_input :: "oid \<Rightarrow> register_body \<Rightarrow> event_doc \<Rightarrow> registration_input" where
  "waitlist_input i body ev =
     \<lparr>in_event = i,
      in_firstName = body_firstName body,
      in_lastName = body_lastName body,
      in_email = body_email body,
      in_phone = body_phone body,
      in_accessibilityNeeds = body_accessibilityNeeds body,
      in_status = Some Waitlisted,
      in_amount = Some (if isFree ev then 0 else price ev),
      in_paymentStatus = None\<rparr>"

definition confirmed_input :: "oid \<Rightarrow> register_body \<Rightarrow> event_doc \<Rightarrow> registration_input" where
  "confirmed_input i body ev =
     \<lparr>in_event = i,
      in_firstName = body_firstName body,
      in_lastName = body_lastName body,
      in_email = body_email body,
      in_phone = body_phone body,
      in_accessibilityNeeds = body_accessibilityNeeds body,
      in_status = None,
      in_amount = Some (if isFree ev then 0 else price ev),
      in_paymentStatus = Some (if isFree ev then Paid else Pending)\<rparr>"

definition registerForEvent :: "env \<Rightarrow> oid \<Rightarrow> register_body \<Rightarrow> db \<Rightarrow> response \<times> db" where
  "registerForEvent en i body d =
     (case Event_findById d i of
        None \<Rightarrow> (json 404 False ''Event not found'' NoData, d)
      | Some ev \<Rightarrow>
          if status ev \<noteq> EvPublished
          then (json 400 False ''Registration is not open for this event'' NoData, d)
          else if \<not> registrationOpen ev
          then (json 400 False ''Registration is closed for this event'' NoData, d)
          else
            (case EventRegistration_findOne d i (body_email body) of
               Some existingRegistration \<Rightarrow>
                 (json 400 False ''You are already registered for this event'' NoData, d)
             | None \<Rightarrow>
                 if at_capacity ev
                 then
                   (case EventRegistration_create en (waitlist_input i body ev) d of
                      Inl e \<Rightarrow> (register_catch e, d)
                    | Inr (registration, d') \<Rightarrow>
                        (json 201 True ''Event is full. You have been added to the waitlist.''
                           (WaitlistedData registration), d'))
                 else
                   (case EventRegistration_create en (confirmed_input i body ev) d of
                      Inl e \<Rightarrow> (register_catch e, d)
                    | Inr (registration, d') \<Rightarrow>
                        (json 201 True ''Registration successful'' (RegistrationData registration),
                         Event_findByIdAndUpdate_inc i 1 d'))))"

section \<open>cancelRegistration\<close>

definition cancelRegistration :: "oid \<Rightarrow> db \<Rightarrow> response \<times> db" where
  "cancelRegistration i d =
     (case EventRegistration_findById d i of
        None \<Rightarrow> (json 404 False ''Registration not found'' NoData, d)
      | Some registration \<Rightarrow>
          (let d1 = EventRegistration_save (registration\<lparr>regStatus := RegCancelled\<rparr>) d;
               d2 = Event_findByIdAndUpdate_inc (event registration) (- 1) d1
           in (json 200 True ''Registration cancelled successfully'' NoData, d2)))"

section \<open>The counter and the confirmed registrations\<close>

text \<open>\<^verbatim>\<open>countDocuments({ event: i, status: 'confirmed' })\<close> on the registrations.\<close>

definition confirmed_count :: "db \<Rightarrow> oid \<Rightarrow> int" where
  "confirmed_count d i =
     int (length (filter (\<lambda>r. event r = i \<and> regStatus r = Confirmed) (registrations d)))"

text \<open>The relationship between the two collections: the counter of event \<open>i\<close>, when the
  event exists, is the number of its confirmed registrations.\<close>

definition counter_consistent :: "db \<Rightarrow> oid \<Rightarrow> bool" where
  "counter_consistent d i =
     (case Event_findById d i of
        None \<Rightarrow> True
      | Some ev \<Rightarrow> currentAttendees ev = confirmed_count d i)"

text \<open>Requests served one after the other, each to completion.\<close>

record register_request =
  rq_env :: env
  rq_id :: oid
  rq_body :: register_body

fun register_all :: "register_request list \<Rightarrow> db \<Rightarrow> db" where
  "register_all [] d = d"
| "register_all (rq # rqs) d =
     register_all rqs (snd (registerForEvent (rq_env rq) (rq_id rq) (rq_body rq) d))"

section \<open>registerForEvent between its awaits\<close>

text \<open>
  The handler is an \<^verbatim>\<open>async\<close> function: it gives up control at each \<^verbatim>\<open>await\<close>, and
  another request's handler may run a store operation in between. One step below is one
  store operation of \<^verbatim>\<open>registerForEvent\<close> together with the synchronous code that
  follows it up to the next \<^verbatim>\<open>await\<close>. The program counter carries the handler's local
  variables: \<^verbatim>\<open>event\<close> (the document as read by \<^verbatim>\<open>findById\<close>) and \<^verbatim>\<open>registration\<close>.
\<close>

datatype register_pc =
    AwaitFindEvent
  | AwaitFindExisting event_doc
  | AwaitCreate event_doc
  | AwaitIncrement registration_doc
  | Responded response

fun register_step :: "register_request \<Rightarrow> register_pc \<Rightarrow> db \<Rightarrow> register_pc \<times> db" where
  "register_step rq AwaitFindEvent d =
     (case Event_findById d (rq_id rq) of
        None \<Rightarrow> (Responded (json 404 False ''Event not found'' NoData), d)
      | Some ev \<Rightarrow>
          if status ev \<noteq> EvPublished
          then (Responded (json 400 False ''Registration is not open for this event'' NoData), d)
          else if \<not> registrationOpen ev
          then (Responded (json 400 False ''Registration is closed for this event'' NoData), d)
          else (AwaitFindExisting ev, d))"
| "register_step rq (AwaitFindExisting ev) d =
     (case EventRegistration_findOne d (rq_id rq) (body_email (rq_body rq)) of
        Some existingRegistration \<Rightarrow>
          (Responded (json 400 False ''You are already registered for this event'' NoData), d)
      | None \<Rightarrow> (AwaitCreate ev, d))"
| "register_step rq (AwaitCreate ev) d =
     (if at_capacity ev
      then
        (case EventRegistration_create (rq_env rq) (waitlist_input (rq_id rq) (rq_body rq) ev) d of
           Inl e \<Rightarrow> (Responded (register_catch e), d)
         | Inr (registration, d') \<Rightarrow>
             (Responded
                (json 201 True ''Event is full. You have been added to the waitlist.''
                   (WaitlistedData registration)), d'))
      else
        (case EventRegistration_create (rq_env rq) (confirmed_input (rq_id rq) (rq_body rq) ev) d of
           Inl e \<Rightarrow> (Responded (register_catch e), d)
         | Inr (registration, d') \<Rightarrow> (AwaitIncrement registration, d')))"
| "register_step rq (AwaitIncrement registration) d =
     (Responded (json 201 True ''Registration successful'' (RegistrationData registration)),
      Event_findByIdAndUpdate_inc (rq_id rq) 1 d)"
| "register_step rq (Responded r) d = (Responded r, d)"

text \<open>A schedule names, step by step, the request whose handler runs next.\<close>

fun run_schedule ::
  "nat list \<Rightarrow> (register_request \<times> register_pc) list \<times> db \<Rightarrow>
   (register_request \<times> register_pc) list \<times> db" where
  "run_schedule [] s = s"
| "run_schedule (k # ks) (ts, d) =
     (if k < length ts
      then
        (case register_step (fst (ts ! k)) (snd (ts ! k)) d of
           (pc', d') \<Rightarrow> run_schedule ks (ts[k := (fst (ts ! k), pc')], d'))
      else run_schedule ks (ts, d))"

section \<open>updateEvent\<close>

text \<open>
  \<^verbatim>\<open>Event.findByIdAndUpdate(req.params.id, req.body, { new: true, runValidators: true })\<close>.
  The body is the patch: a field that is present is set. The patch below covers the
  capacity and lifecycle fields; \<open>None\<close> is a field the body does not have, and
  \<^verbatim>\<open>maxAttendees: null\<close> is \<open>Some None\<close>.
\<close>

record event_patch =
  p_price :: "int option"
  p_isFree :: "bool option"
  p_maxAttendees :: "int option option"
  p_currentAttendees :: "int option"
  p_featured :: "bool option"
  p_status :: "string option"
  p_registrationOpen :: "bool option"

definition status_name :: "event_status \<Rightarrow> string" where
  "status_name s =
     (case s of
        EvDraft \<Rightarrow> ''draft''
      | EvPublished \<Rightarrow> ''published''
      | EvCancelled \<Rightarrow> ''cancelled''
      | EvCompleted \<Rightarrow> ''completed'')"

definition status_of_name :: "string \<Rightarrow> event_status option" where
  "status_of_name s = find (\<lambda>t. status_name t = s) [EvDraft, EvPublished, EvCancelled, EvCompleted]"

text \<open>The update validators of the patched paths: \<^verbatim>\<open>min\<close> on \<^verbatim>\<open>price\<close> and
  \<^verbatim>\<open>maxAttendees\<close>, \<^verbatim>\<open>enum\<close> on \<^verbatim>\<open>status\<close>. The schema gives \<^verbatim>\<open>currentAttendees\<close> none.\<close>

definition validate_patch :: "event_patch \<Rightarrow> (string \<times> string) list" where
  "validate_patch p =
     path_error ''price''
       (case p_price p of
          None \<Rightarrow> None
        | Some v \<Rightarrow> if v < 0 then Some ''Price cannot be negative'' else None) @
     path_error ''maxAttendees''
       (case p_maxAttendees p of
          None \<Rightarrow> None
        | Some None \<Rightarrow> None
        | Some (Some m) \<Rightarrow> if m < 1 then Some ''Maximum attendees must be at least 1'' else None) @
     path_error ''status''
       (case p_status p of
          None \<Rightarrow> None
        | Some s \<Rightarrow>
            (case status_of_name s of
               None \<Rightarrow> Some (''`'' @ s @ ''` is not a valid enum value for path `status`.'')
             | Some t \<Rightarrow> None))"

definition or_else :: "'a option \<Rightarrow> 'a \<Rightarrow> 'a" where
  "or_else v x = (case v of None \<Rightarrow> x | Some y \<Rightarrow> y)"

definition apply_patch :: "event_patch \<Rightarrow> event_doc \<Rightarrow> event_doc" where
  "apply_patch p ev =
     ev\<lparr>price := or_else (p_price p) (price ev),
        isFree := or_else (p_isFree p) (isFree ev),
        maxAttendees := or_else (p_maxAttendees p) (maxAttendees ev),
        currentAttendees := or_else (p_currentAttendees p) (currentAttendees ev),
        featured := or_else (p_featured p) (featured ev),
        status := or_else (Option.bind (p_status p) status_of_name) (status ev),
        registrationOpen := or_else (p_registrationOpen p) (registrationOpen ev)\<rparr>"

fun set_fields :: "oid \<Rightarrow> event_patch \<Rightarrow> event_doc list \<Rightarrow> event_doc list" where
  "set_fields i p [] = []"
| "set_fields i p (e # es) =
     (if eid e = i then apply_patch p e # es else e # set_fields i p es)"

definition updateEvent :: "oid \<Rightarrow> event_patch \<Rightarrow> db \<Rightarrow> response \<times> db" where
  "updateEvent i p d =
     (let errs = validate_patch p in
      if errs \<noteq> [] then (json 400 False ''Validation failed'' (ValidationErrors errs), d)
      else
        (case Event_findById d i of
           None \<Rightarrow> (json 404 False ''Event not found'' NoData, d)
         | Some ev \<Rightarrow>
             (json 200 True ''Event updated successfully'' (EventData (apply_patch p ev)),
              d\<lparr>events := set_fields i p (events d)\<rparr>)))"

section \<open>getEvents\<close>

text \<open>
  The query string of \<^verbatim>\<open>GET /api/events\<close>. \<^verbatim>\<open>page\<close> and \<^verbatim>\<open>limit\<close> are taken as the
  integers their decimal strings denote (on those \<^verbatim>\<open>parseInt\<close> and the arithmetic
  coercion agree); \<^verbatim>\<open>featured\<close> and \<^verbatim>\<open>status\<close> are the strings as sent.
\<close>

record events_query =
  q_page :: "int option"
  q_limit :: "int option"
  q_featured :: "string option"
  q_status :: "string option"

text \<open>The Mongo filter object the handler builds.\<close>

record event_filter =
  f_status :: "string option"
  f_featured :: "bool option"

definition getEvents_filter :: "events_query \<Rightarrow> event_filter" where
  "getEvents_filter q =
     (let status_param = or_else (q_status q) ''published'' in
      \<lparr>f_status = (if status_param \<noteq> ''all'' then Some status_param else None),
       f_featured = (if q_featured q = Some ''true'' then Some True else None)\<rparr>)"

definition matches :: "event_filter \<Rightarrow> event_doc \<Rightarrow> bool" where
  "matches f e =
     ((case f_status f of None \<Rightarrow> True | Some s \<Rightarrow> status_name (status e) = s) \<and>
      (case f_featured f of None \<Rightarrow> True | Some b \<Rightarrow> featured e = b))"

definition Event_find :: "event_filter \<Rightarrow> db \<Rightarrow> event_doc list" where
  "Event_find f d = filter (matches f) (events d)"

definition Event_countDocuments :: "event_filter \<Rightarrow> db \<Rightarrow> nat" where
  "Event_countDocuments f d = length (Event_find f d)"

text \<open>\<^verbatim>\<open>.sort({ featured: -1, date: 1 })\<close>: featured events first, then by the date string;
  documents with equal keys stay in collection order.\<close>

definition sort_featured_date :: "event_doc list \<Rightarrow> event_doc list" where
  "sort_featured_date es = sort_key (\<lambda>e. (if featured e then 0 :: nat else 1, date e)) es"

text \<open>\<^verbatim>\<open>.skip(s).limit(l)\<close>: a limit of 0 is no limit, and a negative limit is read as its
  absolute value.\<close>

definition skip_limit :: "nat \<Rightarrow> int \<Rightarrow> 'a list \<Rightarrow> 'a list" where
  "skip_limit s l xs = (if l = 0 then drop s xs else take (nat \<bar>l\<bar>) (drop s xs))"

definition select_without_fullDescription :: "event_doc \<Rightarrow> event_doc" where
  "select_without_fullDescription e = e\<lparr>fullDescription := None\<rparr>"

definition getEvents :: "events_query \<Rightarrow> db \<Rightarrow> response" where
  "getEvents q d =
     (let pg = or_else (q_page q) 1;
          lim = or_else (q_limit q) 20;
          query = getEvents_filter q
      in if (pg - 1) * lim < 0
         then json 500 False ''Server error while fetching events'' NoData
         else
           (let evs = map select_without_fullDescription
                        (skip_limit (nat ((pg - 1) * lim)) lim
                           (sort_featured_date (Event_find query d)));
                total = Event_countDocuments query d
            in json 200 True []
                 (EventList evs
                    \<lparr>page = pg, limit = lim, total_count = total,
                     pages = (if lim = 0 then None else Some (- ((- int total) div lim)))\<rparr>)))"

section \<open>The router of \<^verbatim>\<open>/api/events\<close>\<close>

datatype http_method = GET | POST | PUT | DELETE

datatype segment = Lit string | Param string

datatype handler =
    H_getEventStats | H_getAllRegistrations | H_getAdminEvents | H_getEvents
  | H_getEventById | H_registerForEvent | H_getEventRegistrations | H_createEvent
  | H_updateEvent | H_deleteEvent | H_cancelRegistration

record route =
  r_method :: http_method
  r_path :: "segment list"
  r_protect :: bool
  r_handler :: handler

definition eventRoutes :: "route list" where
  "eventRoutes =
     [\<lparr>r_method = GET, r_path = [Lit ''stats''], r_protect = True, r_handler = H_getEventStats\<rparr>,
      \<lparr>r_method = GET, r_path = [Lit ''registrations''], r_protect = True,
         r_handler = H_getAllRegistrations\<rparr>,
      \<lparr>r_method = GET, r_path = [Lit ''admin'', Lit ''all''], r_protect = True,
         r_handler = H_getAdminEvents\<rparr>,
      \<lparr>r_method = GET, r_path = [], r_protect = False, r_handler = H_getEvents\<rparr>,
      \<lparr>r_method = GET, r_path = [Param ''idOrSlug''], r_protect = False,
         r_handler = H_getEventById\<rparr>,
      \<lparr>r_method = POST, r_path = [Param ''id'', Lit ''register''], r_protect = False,
         r_handler = H_registerForEvent\<rparr>,
      \<lparr>r_method = GET, r_path = [Param ''id'', Lit ''registrations''], r_protect = True,
         r_handler = H_getEventRegistrations\<rparr>,
      \<lparr>r_method = POST, r_path = [], r_protect = True, r_handler = H_createEvent\<rparr>,
      \<lparr>r_method = PUT, r_path = [Param ''id''], r_protect = True, r_handler = H_updateEvent\<rparr>,
      \<lparr>r_method = DELETE, r_path = [Param ''id''], r_protect = True, r_handler = H_deleteEvent\<rparr>,
      \<lparr>r_method = POST, r_path = [Lit ''registrations'', Param ''id'', Lit ''cancel''],
         r_protect = False, r_handler = H_cancelRegistration\<rparr>]"

fun path_matches :: "segment list \<Rightarrow> string list \<Rightarrow> bool" where
  "path_matches [] [] = True"
| "path_matches (Lit l # ps) (s # ss) = (l = s \<and> path_matches ps ss)"
| "path_matches (Param n # ps) (s # ss) = (s \<noteq> [] \<and> path_matches ps ss)"
| "path_matches ps ss = False"

text \<open>Express takes the first route, in registration order, whose method and path match.\<close>

definition resolve :: "http_method \<Rightarrow> string list \<Rightarrow> route option" where
  "resolve m segs = find (\<lambda>r. r_method r = m \<and> path_matches (r_path r) segs) eventRoutes"

section \<open>Sample data\<close>

text \<open>One free event with a single seat, and two attendees; the states below are reached
  from \<open>db_open\<close> by the handlers themselves.\<close>

definition pride_walk :: event_doc where
  "pride_walk =
     \<lparr>eid = 1, title = ''Pride Walk 2024'', slug = ''pride-walk-2024'', date = ''2024-06-01'',
      fullDescription = None, price = 0, isFree = True, maxAttendees = Some 1,
      currentAttendees = 0, featured = False, status = EvPublished, registrationOpen = True\<rparr>"

definition attendee :: "string \<Rightarrow> string \<Rightarrow> register_body" where
  "attendee name mail =
     \<lparr>body_firstName = Some name, body_lastName = Some ''Doe'', body_email = Some mail,
      body_phone = None, body_accessibilityNeeds = None\<rparr>"

definition request_of :: "oid \<Rightarrow> string \<Rightarrow> string \<Rightarrow> string \<Rightarrow> register_request" where
  "request_of n rnd name mail =
     \<lparr>rq_env = \<lparr>newId = n, randomPart = rnd\<rparr>, rq_id = 1, rq_body = attendee name mail\<rparr>"

definition request_a :: register_request where
  "request_a = request_of 10 ''K3J9XA'' ''Ann'' ''ann@example.org''"

definition request_b :: register_request where
  "request_b = request_of 11 ''Q7W2ZB'' ''Bob'' ''bob@example.org''"

definition request_c :: register_request where
  "request_c = request_of 12 ''M4T8YC'' ''Cyd'' ''cyd@example.org''"

definition db_open :: db where
  "db_open = \<lparr>events = [pride_walk], registrations = []\<rparr>"

definition db_one :: db where
  "db_one = register_all [request_a] db_open"

definition db_full :: db where
  "db_full = register_all [request_a, request_b] db_open"

definition db_cancelled :: db where
  "db_cancelled = snd (cancelRegistration 10 db_one)"

definition db_three :: db where
  "db_three =
     \<lparr>events =
        [pride_walk,
         pride_walk\<lparr>eid := 2, title := ''Picnic'', slug := ''picnic'', date := ''2024-05-01'',
                    status := EvDraft\<rparr>,
         pride_walk\<lparr>eid := 3, title := ''Gala'', slug := ''gala'', date := ''2024-04-01'',
                    status := EvCancelled\<rparr>],
      registrations = []\<rparr>"

definition list_all_statuses :: events_query where
  "list_all_statuses =
     \<lparr>q_page = None, q_limit = None, q_featured = None, q_status = Some ''all''\<rparr>"

definition set_counter_patch :: event_patch where
  "set_counter_patch =
     \<lparr>p_price = None, p_isFree = None, p_maxAttendees = None, p_currentAttendees = Some 5,
      p_featured = None, p_status = None, p_registrationOpen = None\<rparr>"

section \<open>Facts about the store's primitives\<close>

lemma find_inc_currentAttendees:
  "find (\<lambda>e. eid e = j) (inc_currentAttendees i n es) =
     (if i = j
      then map_option (\<lambda>e. e\<lparr>currentAttendees := currentAttendees e + n\<rparr>)
             (find (\<lambda>e. eid e = j) es)
      else find (\<lambda>e. eid e = j) es)"
  by (induction es) auto

lemma findById_inc:
  "Event_findById (Event_findByIdAndUpdate_inc i n d) j =
     (if i = j
      then map_option (\<lambda>e. e\<lparr>currentAttendees := currentAttendees e + n\<rparr>) (Event_findById d j)
      else Event_findById d j)"
  by (simp add: Event_findById_def Event_findByIdAndUpdate_inc_def find_inc_currentAttendees)

lemma registrations_inc [simp]:
  "registrations (Event_findByIdAndUpdate_inc i n d) = registrations d"
  by (simp add: Event_findByIdAndUpdate_inc_def)

lemma confirmed_count_inc [simp]:
  "confirmed_count (Event_findByIdAndUpdate_inc i n d) j = confirmed_count d j"
  by (simp add: confirmed_count_def)

lemma create_Inr:
  assumes "EventRegistration_create en inp d = Inr (doc, d')"
  shows "events d' = events d"
    and "registrations d' = registrations d @ [doc]"
    and "event doc = in_event inp"
    and "regStatus doc = or_else (in_status inp) Confirmed"
    and "paymentStatus doc = or_else (in_paymentStatus inp) Pending"
    and "amount doc = or_else (in_amount inp) 0"
  using assms
  by (auto simp: EventRegistration_create_def Let_def or_else_def split: if_splits option.splits)

lemma create_findById:
  "EventRegistration_create en inp d = Inr (doc, d') \<Longrightarrow> Event_findById d' j = Event_findById d j"
  by (simp add: Event_findById_def create_Inr(1))

lemma confirmed_count_create:
  assumes "EventRegistration_create en inp d = Inr (doc, d')"
  shows "confirmed_count d' j =
     confirmed_count d j +
     (if in_event inp = j \<and> or_else (in_status inp) Confirmed = Confirmed then 1 else 0)"
  using create_Inr(2,3,4)[OF assms] by (simp add: confirmed_count_def)

section \<open>The capacity decision of registerForEvent\<close>

text \<open>
  Claim C3. A call of \<^verbatim>\<open>registerForEvent\<close> that passes the event-exists, published,
  registration-open and duplicate checks and creates its registration (response 201):
  when \<^verbatim>\<open>maxAttendees\<close> is unset or \<^verbatim>\<open>currentAttendees < maxAttendees\<close>, the created
  registration is confirmed and the event's counter has moved up by exactly one;
  otherwise the created registration is waitlisted and no event has changed. The event is
  one the schema admits (\<^verbatim>\<open>maxAttendees\<close> unset or at least 1).
\<close>

theorem register_capacity_decision:
  assumes found: "Event_findById d i = Some ev"
    and pub: "status ev = EvPublished"
    and opn: "registrationOpen ev"
    and nodup: "EventRegistration_findOne d i (body_email body) = None"
    and schema: "case maxAttendees ev of None \<Rightarrow> True | Some m \<Rightarrow> 1 \<le> m"
    and res: "registerForEvent en i body d = (res, d')"
    and created: "statusCode res = 201"
  shows "if (case maxAttendees ev of None \<Rightarrow> True | Some m \<Rightarrow> currentAttendees ev < m)
         then (\<exists>reg. payload res = RegistrationData reg \<and> regStatus reg = Confirmed \<and>
                 registrations d' = registrations d @ [reg] \<and>
                 Event_findById d' i = Some (ev\<lparr>currentAttendees := currentAttendees ev + 1\<rparr>))
         else (\<exists>reg. payload res = WaitlistedData reg \<and> regStatus reg = Waitlisted \<and>
                 registrations d' = registrations d @ [reg] \<and> events d' = events d)"
proof (cases "at_capacity ev")
  case True
  then have no: "\<not> (case maxAttendees ev of None \<Rightarrow> True | Some m \<Rightarrow> currentAttendees ev < m)"
    by (auto simp: at_capacity_def split: option.splits)
  from True res found pub opn nodup created
  obtain reg where c: "EventRegistration_create en (waitlist_input i body ev) d = Inr (reg, d')"
    and r: "res = json 201 True ''Event is full. You have been added to the waitlist.''
                    (WaitlistedData reg)"
    by (auto simp: registerForEvent_def register_catch_def json_def
             split: sum.splits create_error.splits)
  from create_Inr[OF c] r no show ?thesis
    by (simp add: json_def waitlist_input_def or_else_def)
next
  case False
  with schema have yes: "case maxAttendees ev of None \<Rightarrow> True | Some m \<Rightarrow> currentAttendees ev < m"
    by (auto simp: at_capacity_def split: option.splits)
  from False res found pub opn nodup created
  obtain reg d1 where c: "EventRegistration_create en (confirmed_input i body ev) d = Inr (reg, d1)"
    and r: "res = json 201 True ''Registration successful'' (RegistrationData reg)"
    and d': "d' = Event_findByIdAndUpdate_inc i 1 d1"
    by (auto simp: registerForEvent_def register_catch_def json_def
             split: sum.splits create_error.splits)
  from create_Inr[OF c] create_findById[OF c] r yes d' found show ?thesis
    by (simp add: json_def confirmed_input_def or_else_def findById_inc)
qed

text \<open>The theorem at the sample event: Ann takes the one seat, Bob is waitlisted.\<close>

theorem register_capacity_decision_witness:
  "(\<exists>reg. payload (fst (registerForEvent (rq_env request_a) 1 (rq_body request_a) db_open)) =
            RegistrationData reg \<and>
          regStatus reg = Confirmed \<and>
          registrations (snd (registerForEvent (rq_env request_a) 1 (rq_body request_a) db_open)) =
            registrations db_open @ [reg] \<and>
          Event_findById
            (snd (registerForEvent (rq_env request_a) 1 (rq_body request_a) db_open)) 1 =
            Some (pride_walk\<lparr>currentAttendees := 1\<rparr>)) \<and>
   (\<exists>reg. payload (fst (registerForEvent (rq_env request_b) 1 (rq_body request_b) db_one)) =
            WaitlistedData reg \<and>
          regStatus reg = Waitlisted \<and>
          registrations (snd (registerForEvent (rq_env request_b) 1 (rq_body request_b) db_one)) =
            registrations db_one @ [reg] \<and>
          events (snd (registerForEvent (rq_env request_b) 1 (rq_body request_b) db_one)) =
            events db_one)"
proof -
  let ?ra = "registerForEvent (rq_env request_a) 1 (rq_body request_a) db_open"
  let ?rb = "registerForEvent (rq_env request_b) 1 (rq_body request_b) db_one"
  have a1: "Event_findById db_open 1 = Some pride_walk" by code_simp
  have a2: "status pride_walk = EvPublished" by code_simp
  have a3: "registrationOpen pride_walk" by code_simp
  have a4: "EventRegistration_findOne db_open 1 (body_email (rq_body request_a)) = None"
    by code_simp
  have a5: "case maxAttendees pride_walk of None \<Rightarrow> True | Some m \<Rightarrow> 1 \<le> m" by code_simp
  have a6: "?ra = (fst ?ra, snd ?ra)" by simp
  have a7: "statusCode (fst ?ra) = 201" by code_simp
  have a8: "case maxAttendees pride_walk of None \<Rightarrow> True
            | Some m \<Rightarrow> currentAttendees pride_walk < m" by code_simp
  have a9: "currentAttendees pride_walk + 1 = 1" by code_simp
  have b1: "Event_findById db_one 1 = Some (pride_walk\<lparr>currentAttendees := 1\<rparr>)" by code_simp
  have b2: "status (pride_walk\<lparr>currentAttendees := 1\<rparr>) = EvPublished" by code_simp
  have b3: "registrationOpen (pride_walk\<lparr>currentAttendees := 1\<rparr>)" by code_simp
  have b4: "EventRegistration_findOne db_one 1 (body_email (rq_body request_b)) = None"
    by code_simp
  have b5: "case maxAttendees (pride_walk\<lparr>currentAttendees := 1\<rparr>) of None \<Rightarrow> True
            | Some m \<Rightarrow> 1 \<le> m" by code_simp
  have b6: "?rb = (fst ?rb, snd ?rb)" by simp
  have b7: "statusCode (fst ?rb) = 201" by code_simp
  have b8: "\<not> (case maxAttendees (pride_walk\<lparr>currentAttendees := 1\<rparr>) of None \<Rightarrow> True
            | Some m \<Rightarrow> currentAttendees (pride_walk\<lparr>currentAttendees := 1\<rparr>) < m)" by code_simp
  from register_capacity_decision[OF a1 a2 a3 a4 a5 a6 a7] a8 a9
  have A: "\<exists>reg. payload (fst ?ra) = RegistrationData reg \<and> regStatus reg = Confirmed \<and>
             registrations (snd ?ra) = registrations db_open @ [reg] \<and>
             Event_findById (snd ?ra) 1 = Some (pride_walk\<lparr>currentAttendees := 1\<rparr>)"
    by simp
  from register_capacity_decision[OF b1 b2 b3 b4 b5 b6 b7] b8
  have B: "\<exists>reg. payload (fst ?rb) = WaitlistedData reg \<and> regStatus reg = Waitlisted \<and>
             registrations (snd ?rb) = registrations db_one @ [reg] \<and>
             events (snd ?rb) = events db_one"
    by simp
  from A B show ?thesis by blast
qed

section \<open>Serial registrations stay within capacity; interleaved ones do not\<close>

lemma registerForEvent_snd:
  "snd (registerForEvent en j body d) = d \<or>
   (\<exists>ev reg d1. Event_findById d j = Some ev \<and> at_capacity ev \<and>
      EventRegistration_create en (waitlist_input j body ev) d = Inr (reg, d1) \<and>
      snd (registerForEvent en j body d) = d1) \<or>
   (\<exists>ev reg d1. Event_findById d j = Some ev \<and> \<not> at_capacity ev \<and>
      EventRegistration_create en (confirmed_input j body ev) d = Inr (reg, d1) \<and>
      snd (registerForEvent en j body d) = Event_findByIdAndUpdate_inc j 1 d1)"
proof (cases "Event_findById d j")
  case None
  then show ?thesis by (simp add: registerForEvent_def)
next
  case (Some ev)
  show ?thesis
  proof (cases "at_capacity ev")
    case True
    show ?thesis
    proof (cases "EventRegistration_create en (waitlist_input j body ev) d")
      case (Inl e)
      with Some True show ?thesis
        by (simp add: registerForEvent_def split: option.splits)
    next
      case (Inr p)
      with Some True show ?thesis
        by (cases p) (simp add: registerForEvent_def split: option.splits)
    qed
  next
    case False
    show ?thesis
    proof (cases "EventRegistration_create en (confirmed_input j body ev) d")
      case (Inl e)
      with Some False show ?thesis
        by (simp add: registerForEvent_def split: option.splits)
    next
      case (Inr p)
      with Some False show ?thesis
        by (cases p) (simp add: registerForEvent_def split: option.splits)
    qed
  qed
qed

lemma registerForEvent_cases:
  obtains (unchanged) "snd (registerForEvent en j body d) = d"
  | (waitlisted) ev reg d1 where "Event_findById d j = Some ev" "at_capacity ev"
      "EventRegistration_create en (waitlist_input j body ev) d = Inr (reg, d1)"
      "snd (registerForEvent en j body d) = d1"
  | (confirmed) ev reg d1 where "Event_findById d j = Some ev" "\<not> at_capacity ev"
      "EventRegistration_create en (confirmed_input j body ev) d = Inr (reg, d1)"
      "snd (registerForEvent en j body d) = Event_findByIdAndUpdate_inc j 1 d1"
  using registerForEvent_snd[of en j body d] by blast

text \<open>One registration, for any event \<open>j\<close>, keeps event \<open>i\<close> bounded, in step with its
  confirmed registrations, and within its \<open>N\<close> seats.\<close>

lemma register_keeps_seats:
  assumes found: "Event_findById d i = Some ev"
    and cap: "maxAttendees ev = Some N" and pos: "1 \<le> N"
    and cons: "currentAttendees ev = confirmed_count d i"
    and le: "confirmed_count d i \<le> N"
  shows "\<exists>ev'. Event_findById (snd (registerForEvent en j body d)) i = Some ev' \<and>
           maxAttendees ev' = Some N \<and>
           currentAttendees ev' = confirmed_count (snd (registerForEvent en j body d)) i \<and>
           confirmed_count (snd (registerForEvent en j body d)) i \<le> N"
proof (cases rule: registerForEvent_cases[of en j body d])
  case unchanged
  with assms show ?thesis by simp
next
  case (waitlisted ev0 reg d1)
  from create_findById[OF waitlisted(3)] confirmed_count_create[OF waitlisted(3)]
    waitlisted(4) assms
  show ?thesis by (simp add: waitlist_input_def or_else_def)
next
  case (confirmed ev0 reg d1)
  show ?thesis
  proof (cases "j = i")
    case True
    with confirmed(1) found have "ev0 = ev" by simp
    with confirmed(2) cap pos cons have "confirmed_count d i < N"
      by (auto simp: at_capacity_def)
    with True create_findById[OF confirmed(3)] confirmed_count_create[OF confirmed(3)]
      confirmed(4) found cap cons
    show ?thesis by (simp add: confirmed_input_def or_else_def findById_inc)
  next
    case False
    with create_findById[OF confirmed(3)] confirmed_count_create[OF confirmed(3)]
      confirmed(4) assms
    show ?thesis by (simp add: confirmed_input_def or_else_def findById_inc)
  qed
qed

text \<open>The step machine run alone is the handler: four steps of one request, with no
  other request in between, end in the handler's response and database.\<close>

lemma register_steps_serial:
  "run_schedule [0, 0, 0, 0] ([(rq, AwaitFindEvent)], d) =
     ([(rq, Responded (fst (registerForEvent (rq_env rq) (rq_id rq) (rq_body rq) d)))],
      snd (registerForEvent (rq_env rq) (rq_id rq) (rq_body rq) d))"
  by (auto simp: registerForEvent_def split: option.splits sum.splits)

text \<open>
  Claim C2, as the code has it. The handler holds no lock and uses no conditional
  increment, so it is not serialised per event. What holds is the serial case: for an
  event with \<^verbatim>\<open>maxAttendees = N\<close> (\<open>N \<ge> 1\<close>) whose counter equals the number of its
  confirmed registrations, at most \<open>N\<close>, any sequence of \<^verbatim>\<open>registerForEvent\<close> calls run one
  after the other, for this or any other event, leaves at most \<open>N\<close> confirmed
  registrations for it.
\<close>

theorem serial_register_within_capacity:
  assumes "Event_findById d i = Some ev"
    and "maxAttendees ev = Some N" and "1 \<le> N"
    and "currentAttendees ev = confirmed_count d i"
    and "confirmed_count d i \<le> N"
  shows "confirmed_count (register_all rqs d) i \<le> N"
  using assms
proof (induction rqs arbitrary: d ev)
  case Nil
  then show ?case by simp
next
  case (Cons rq rqs)
  let ?d = "snd (registerForEvent (rq_env rq) (rq_id rq) (rq_body rq) d)"
  from register_keeps_seats[OF Cons.prems, of "rq_env rq" "rq_id rq" "rq_body rq"]
  obtain ev' where "Event_findById ?d i = Some ev'" "maxAttendees ev' = Some N"
    "currentAttendees ev' = confirmed_count ?d i" "confirmed_count ?d i \<le> N"
    by blast
  from Cons.IH[OF this(1,2) Cons.prems(3) this(3,4)] show ?case by simp
qed

theorem serial_register_within_capacity_witness:
  "Event_findById db_open 1 = Some pride_walk \<and> maxAttendees pride_walk = Some 1 \<and>
   currentAttendees pride_walk = confirmed_count db_open 1 \<and>
   confirmed_count (register_all [request_a, request_b, request_c] db_open) 1 \<le> 1"
proof -
  have h1: "Event_findById db_open 1 = Some pride_walk" by code_simp
  have h2: "maxAttendees pride_walk = Some 1" by code_simp
  have h3: "(1::int) \<le> 1" by simp
  have h4: "currentAttendees pride_walk = confirmed_count db_open 1" by code_simp
  have h5: "confirmed_count db_open 1 \<le> 1" by code_simp
  from serial_register_within_capacity[OF h1 h2 h3 h4 h5, of "[request_a, request_b, request_c]"]
    h1 h2 h4
  show ?thesis by simp
qed

text \<open>The claim as stated fails: Ann's and Bob's requests for the one seat, their store
  operations taking turns. After the first two steps both handlers hold the event with
  \<^verbatim>\<open>currentAttendees = 0\<close>; both end confirmed, two confirmed registrations for one seat.\<close>

theorem concurrent_register_oversells:
  "map_option maxAttendees (Event_findById db_open 1) = Some (Some 1) \<and>
   map snd (fst (run_schedule [0, 1]
      ([(request_a, AwaitFindEvent), (request_b, AwaitFindEvent)], db_open))) =
     [AwaitFindExisting pride_walk, AwaitFindExisting pride_walk] \<and>
   confirmed_count (snd (run_schedule [0, 1, 0, 1, 0, 1, 0, 1]
      ([(request_a, AwaitFindEvent), (request_b, AwaitFindEvent)], db_open))) 1 = 2"
  by code_simp

section \<open>cancelRegistration and the counter\<close>

text \<open>A registration, whatever its outcome, keeps every event's counter in step with its
  confirmed registrations.\<close>

lemma register_keeps_counter_consistent:
  assumes "counter_consistent d i"
  shows "counter_consistent (snd (registerForEvent en j body d)) i"
proof (cases rule: registerForEvent_cases[of en j body d])
  case unchanged
  with assms show ?thesis by simp
next
  case (waitlisted ev0 reg d1)
  from create_findById[OF waitlisted(3)] confirmed_count_create[OF waitlisted(3)]
    waitlisted(4) assms
  show ?thesis
    by (auto simp: counter_consistent_def waitlist_input_def or_else_def split: option.splits)
next
  case (confirmed ev0 reg d1)
  from create_findById[OF confirmed(3)] confirmed_count_create[OF confirmed(3)]
    confirmed(4) assms
  show ?thesis
    by (auto simp: counter_consistent_def confirmed_input_def or_else_def findById_inc
        split: option.splits)
qed

text \<open>A cancellation of a registration that exists lowers the counter of its event by
  one, whatever the registration's status.\<close>

lemma cancelRegistration_counter:
  assumes "EventRegistration_findById d i = Some r"
  shows "Event_findById (snd (cancelRegistration i d)) j =
           (if j = event r
            then map_option (\<lambda>e. e\<lparr>currentAttendees := currentAttendees e - 1\<rparr>)
                   (Event_findById d j)
            else Event_findById d j)"
proof -
  have "Event_findById (EventRegistration_save x d) j = Event_findById d j" for x
    by (simp add: Event_findById_def EventRegistration_save_def)
  with assms show ?thesis
    by (auto simp: cancelRegistration_def Let_def findById_inc)
qed

text \<open>
  Claim C1. After every \<^verbatim>\<open>registerForEvent\<close> or \<^verbatim>\<open>cancelRegistration\<close>, run one at a
  time, the event's \<^verbatim>\<open>currentAttendees\<close> is the number of its confirmed registrations.
  The handler of a cancellation breaks this: in \<open>db_full\<close> (Ann confirmed, Bob waitlisted,
  counter 1) the counter is in step; cancelling Bob's waitlisted registration moves the
  counter to 0 while Ann is still confirmed.
\<close>

theorem cancel_waitlisted_breaks_consistency:
  "counter_consistent db_open 1 \<and> counter_consistent db_one 1 \<and> counter_consistent db_full 1 \<and>
   confirmed_count (snd (cancelRegistration 11 db_full)) 1 = 1 \<and>
   map_option currentAttendees (Event_findById (snd (cancelRegistration 11 db_full)) 1) = Some 0 \<and>
   \<not> counter_consistent (snd (cancelRegistration 11 db_full)) 1"
  by code_simp

text \<open>
  Claim C4. Cancelling a confirmed registration lowers the owning event's counter by
  exactly one; cancelling a waitlisted one leaves it unchanged. The handler decrements
  without looking at the status: Bob's registration in \<open>db_full\<close> is waitlisted, the
  counter is 1 before his cancellation and 0 after it.
\<close>

theorem cancel_waitlisted_decrements:
  "map_option regStatus (EventRegistration_findById db_full 11) = Some Waitlisted \<and>
   map_option currentAttendees (Event_findById db_full 1) = Some 1 \<and>
   statusCode (fst (cancelRegistration 11 db_full)) = 200 \<and>
   map_option currentAttendees (Event_findById (snd (cancelRegistration 11 db_full)) 1) = Some 0"
  by code_simp

text \<open>
  Claim C7. \<^verbatim>\<open>currentAttendees\<close> is never below 0 in a state the operations reach. Ann
  registers (counter 1) and cancels (counter 0); the same cancellation sent again is
  answered 200 and the counter is \<open>- 1\<close>.
\<close>

theorem cancel_twice_negative:
  "map_option currentAttendees (Event_findById db_open 1) = Some 0 \<and>
   map_option currentAttendees (Event_findById db_one 1) = Some 1 \<and>
   map_option currentAttendees (Event_findById db_cancelled 1) = Some 0 \<and>
   map_option currentAttendees (Event_findById (snd (cancelRegistration 10 db_cancelled)) 1) =
     Some (- 1)"
  by code_simp

lemma find_rid: "find (\<lambda>x. rid x = i) xs = Some r \<Longrightarrow> rid r = i"
  by (induction xs) (auto split: if_splits)

lemma replace_registration_found:
  "find (\<lambda>x. rid x = rid r) xs = Some r \<Longrightarrow> replace_registration r xs = xs"
  by (induction xs) (auto split: if_splits)

lemma replace_registration_same:
  "find (\<lambda>x. rid x = i) xs = Some r \<Longrightarrow> replace_registration r xs = xs"
  using find_rid replace_registration_found by fastforce

text \<open>
  Claim C5, as the code has it. The handler has no state check: a cancellation of a
  registration that is already cancelled does not fail. It is answered 200 with
  \<^verbatim>\<open>Registration cancelled successfully\<close>, and the registrations are left as they were
  (the registration stays cancelled).
\<close>

theorem cancel_cancelled_succeeds:
  assumes "EventRegistration_findById d i = Some r" and "regStatus r = RegCancelled"
  shows "fst (cancelRegistration i d) =
           json 200 True ''Registration cancelled successfully'' NoData \<and>
         registrations (snd (cancelRegistration i d)) = registrations d"
proof -
  from assms(2) have "r\<lparr>regStatus := RegCancelled\<rparr> = r" by simp
  with assms(1) show ?thesis
    by (simp add: cancelRegistration_def EventRegistration_findById_def
        EventRegistration_save_def replace_registration_same Let_def)
qed

theorem cancel_cancelled_succeeds_witness:
  "map_option regStatus (EventRegistration_findById db_cancelled 10) = Some RegCancelled \<and>
   fst (cancelRegistration 10 db_cancelled) =
     json 200 True ''Registration cancelled successfully'' NoData \<and>
   registrations (snd (cancelRegistration 10 db_cancelled)) = registrations db_cancelled"
proof -
  have h1: "EventRegistration_findById db_cancelled 10 =
              Some (the (EventRegistration_findById db_cancelled 10))" by code_simp
  have h2: "regStatus (the (EventRegistration_findById db_cancelled 10)) = RegCancelled"
    by code_simp
  have h3: "map_option regStatus (EventRegistration_findById db_cancelled 10) =
              Some RegCancelled" by code_simp
  from cancel_cancelled_succeeds[OF h1 h2] h3 show ?thesis by simp
qed

text \<open>The claim as stated fails: Ann's registration is cancelled, and cancelling it again
  is answered 200 and success, not 400.\<close>

theorem cancel_cancelled_not_rejected:
  "map_option regStatus (EventRegistration_findById db_cancelled 10) = Some RegCancelled \<and>
   statusCode (fst (cancelRegistration 10 db_cancelled)) = 200 \<and>
   success (fst (cancelRegistration 10 db_cancelled)) \<and>
   statusCode (fst (cancelRegistration 10 db_cancelled)) \<noteq> 400"
  by code_simp

section \<open>The duplicate check of registerForEvent\<close>

text \<open>
  Claim C6, as the code has it. The duplicate check looks for a registration of the
  event with the request's email and does not look at its status. For an event that is
  found, published and open for registration, \<^verbatim>\<open>registerForEvent\<close> answers 400
  \<^verbatim>\<open>You are already registered for this event\<close> exactly when some registration, of any
  status, exists for the same event and (trimmed, lower-cased) email; a cancelled one
  blocks a new registration as a confirmed or waitlisted one does.
\<close>

theorem register_conflict_iff:
  assumes found: "Event_findById d i = Some ev"
    and pub: "status ev = EvPublished"
    and opn: "registrationOpen ev"
  shows "(fst (registerForEvent en i body d) =
            json 400 False ''You are already registered for this event'' NoData) =
         (\<exists>em. body_email body = Some em \<and>
               (\<exists>r \<in> set (registrations d). event r = i \<and> email r = email_setter em))"
proof (cases "EventRegistration_findOne d i (body_email body)")
  case None
  then have no: "\<not> (\<exists>em. body_email body = Some em \<and>
               (\<exists>r \<in> set (registrations d). event r = i \<and> email r = email_setter em))"
    by (auto simp: EventRegistration_findOne_def find_None_iff split: option.splits)
  from None found pub opn
  have "fst (registerForEvent en i body d) \<noteq>
            json 400 False ''You are already registered for this event'' NoData"
    by (auto simp: registerForEvent_def register_catch_def json_def
             split: sum.splits create_error.splits)
  with no show ?thesis by simp
next
  case (Some r)
  then have yes: "\<exists>em. body_email body = Some em \<and>
               (\<exists>r \<in> set (registrations d). event r = i \<and> email r = email_setter em)"
    by (auto simp: EventRegistration_findOne_def find_Some_iff split: option.splits)
  from Some found pub opn
  have "fst (registerForEvent en i body d) =
            json 400 False ''You are already registered for this event'' NoData"
    by (simp add: registerForEvent_def)
  with yes show ?thesis by simp
qed

text \<open>The theorem at \<open>db_full\<close>: Ann (confirmed) and Bob (waitlisted) are both refused a
  second registration, and Cyd, who has none, is not.\<close>

theorem register_conflict_iff_witness:
  "fst (registerForEvent (rq_env request_c) 1 (rq_body request_a) db_full) =
     json 400 False ''You are already registered for this event'' NoData \<and>
   fst (registerForEvent (rq_env request_c) 1 (rq_body request_b) db_full) =
     json 400 False ''You are already registered for this event'' NoData \<and>
   fst (registerForEvent (rq_env request_c) 1 (rq_body request_c) db_full) \<noteq>
     json 400 False ''You are already registered for this event'' NoData"
proof -
  have h1: "Event_findById db_full 1 = Some (pride_walk\<lparr>currentAttendees := 1\<rparr>)"
    by code_simp
  have h2: "status (pride_walk\<lparr>currentAttendees := 1\<rparr>) = EvPublished" by code_simp
  have h3: "registrationOpen (pride_walk\<lparr>currentAttendees := 1\<rparr>)" by code_simp
  have ea: "body_email (rq_body request_a) = Some ''ann@example.org''" by code_simp
  have eb: "body_email (rq_body request_b) = Some ''bob@example.org''" by code_simp
  have ec: "body_email (rq_body request_c) = Some ''cyd@example.org''" by code_simp
  have ra: "list_ex (\<lambda>r. event r = 1 \<and> email r = email_setter ''ann@example.org'')
              (registrations db_full)" by code_simp
  have rb: "list_ex (\<lambda>r. event r = 1 \<and> email r = email_setter ''bob@example.org'')
              (registrations db_full)" by code_simp
  have rc: "\<not> list_ex (\<lambda>r. event r = 1 \<and> email r = email_setter ''cyd@example.org'')
              (registrations db_full)" by code_simp
  from register_conflict_iff[OF h1 h2 h3, of "rq_env request_c" "rq_body request_a"] ea ra
  have A: "fst (registerForEvent (rq_env request_c) 1 (rq_body request_a) db_full) =
     json 400 False ''You are already registered for this event'' NoData"
    by (simp add: list_ex_iff)
  from register_conflict_iff[OF h1 h2 h3, of "rq_env request_c" "rq_body request_b"] eb rb
  have B: "fst (registerForEvent (rq_env request_c) 1 (rq_body request_b) db_full) =
     json 400 False ''You are already registered for this event'' NoData"
    by (simp add: list_ex_iff)
  from register_conflict_iff[OF h1 h2 h3, of "rq_env request_c" "rq_body request_c"] ec rc
  have C: "fst (registerForEvent (rq_env request_c) 1 (rq_body request_c) db_full) \<noteq>
     json 400 False ''You are already registered for this event'' NoData"
    by (simp add: list_ex_iff)
  from A B C show ?thesis by blast
qed

text \<open>The claim as stated fails: in \<open>db_cancelled\<close> Ann's only registration is cancelled,
  and her new registration for the same event is refused as a duplicate.\<close>

theorem cancelled_registration_blocks:
  "map regStatus (registrations db_cancelled) = [RegCancelled] \<and>
   fst (registerForEvent (rq_env request_c) 1 (rq_body request_a) db_cancelled) =
     json 400 False ''You are already registered for this event'' NoData"
  by code_simp

section \<open>The payment status of a free event's registration\<close>

text \<open>
  Claim C9. A registration created for a free event, confirmed or waitlisted, has amount
  0 and payment status \<^verbatim>\<open>paid\<close>. The waitlist branch of the handler passes no
  \<^verbatim>\<open>paymentStatus\<close>, so the schema's default \<^verbatim>\<open>pending\<close> stands: the event is free, Ann's
  confirmed registration is paid, Bob's waitlisted one has amount 0 and is pending.
\<close>

theorem waitlisted_free_registration_pending:
  "isFree pride_walk \<and>
   map_option (\<lambda>r. (regStatus r, amount r, paymentStatus r))
     (EventRegistration_findById db_full 10) = Some (Confirmed, 0, Paid) \<and>
   map_option (\<lambda>r. (regStatus r, amount r, paymentStatus r))
     (EventRegistration_findById db_full 11) = Some (Waitlisted, 0, Pending)"
  by code_simp

section \<open>updateEvent and the counter\<close>

lemma eid_apply_patch [simp]: "eid (apply_patch p e) = eid e"
  by (simp add: apply_patch_def)

lemma find_set_fields:
  "find (\<lambda>e. eid e = j) (set_fields i p es) =
     (if i = j then map_option (apply_patch p) (find (\<lambda>e. eid e = j) es)
      else find (\<lambda>e. eid e = j) es)"
  by (induction es) auto

text \<open>
  Claim C8, as the code has it. \<^verbatim>\<open>updateEvent\<close> hands the request body to
  \<^verbatim>\<open>findByIdAndUpdate\<close> as it is, and no validator guards \<^verbatim>\<open>currentAttendees\<close>. For an
  event that exists: a patch that passes the schema's validators is applied and answered
  200, and \<^verbatim>\<open>currentAttendees\<close> afterwards is the patch's value when the patch has one and
  the old value otherwise; a patch that fails a validator is answered 400 and changes
  nothing.
\<close>

theorem updateEvent_sets_currentAttendees:
  assumes "Event_findById d i = Some ev"
  shows "(validate_patch p = [] \<longrightarrow>
            statusCode (fst (updateEvent i p d)) = 200 \<and>
            map_option currentAttendees (Event_findById (snd (updateEvent i p d)) i) =
              Some (or_else (p_currentAttendees p) (currentAttendees ev))) \<and>
         (validate_patch p \<noteq> [] \<longrightarrow>
            statusCode (fst (updateEvent i p d)) = 400 \<and> snd (updateEvent i p d) = d)"
  using assms
  by (simp add: updateEvent_def Event_findById_def find_set_fields json_def apply_patch_def)

theorem updateEvent_sets_currentAttendees_witness:
  "Event_findById db_open 1 = Some pride_walk \<and> validate_patch set_counter_patch = [] \<and>
   statusCode (fst (updateEvent 1 set_counter_patch db_open)) = 200 \<and>
   map_option currentAttendees (Event_findById (snd (updateEvent 1 set_counter_patch db_open)) 1) =
     Some 5"
proof -
  have h1: "Event_findById db_open 1 = Some pride_walk" by code_simp
  have h2: "validate_patch set_counter_patch = []" by code_simp
  have h3: "or_else (p_currentAttendees set_counter_patch) (currentAttendees pride_walk) = 5"
    by code_simp
  from updateEvent_sets_currentAttendees[OF h1, of set_counter_patch] h1 h2 h3
  show ?thesis by simp
qed

text \<open>The claim as stated fails: the patch \<^verbatim>\<open>{ currentAttendees: 5 }\<close> on the sample event,
  whose counter is 0 and which has no registration, is answered 200 and the counter is 5.\<close>

theorem updateEvent_overwrites_counter:
  "map_option currentAttendees (Event_findById db_open 1) = Some 0 \<and>
   p_currentAttendees set_counter_patch = Some 5 \<and>
   statusCode (fst (updateEvent 1 set_counter_patch db_open)) = 200 \<and>
   map_option currentAttendees (Event_findById (snd (updateEvent 1 set_counter_patch db_open)) 1) =
     Some 5"
  by code_simp

section \<open>The public listing\<close>

lemma matches_getEvents_filter:
  "matches (getEvents_filter q) e =
     ((or_else (q_status q) ''published'' = ''all'' \<or>
       status_name (status e) = or_else (q_status q) ''published'') \<and>
      (q_featured q = Some ''true'' \<longrightarrow> featured e))"
  by (simp add: matches_def getEvents_filter_def Let_def)

lemma set_skip_limit: "set (skip_limit s l xs) \<subseteq> set xs"
  by (auto simp: skip_limit_def dest: in_set_takeD in_set_dropD)

lemma skip_limit_whole:
  "s = 0 \<Longrightarrow> l = 0 \<or> int (length xs) \<le> \<bar>l\<bar> \<Longrightarrow> skip_limit s l xs = xs"
  by (auto simp: skip_limit_def)

lemma set_sort_featured_date [simp]: "set (sort_featured_date es) = set es"
  by (simp add: sort_featured_date_def)

lemma length_sort_featured_date [simp]: "length (sort_featured_date es) = length es"
  by (simp add: sort_featured_date_def)

text \<open>
  Claim C10. \<^verbatim>\<open>GET /api/events\<close> is routed to \<^verbatim>\<open>getEvents\<close> with no \<^verbatim>\<open>protect\<close> in front
  of it. The handler filters by exactly the status of the query string, \<^verbatim>\<open>published\<close>
  when there is none (and by \<^verbatim>\<open>featured\<close> when that is \<^verbatim>\<open>true\<close>): the documents found are
  the events with that status; the total reported is their number; every event returned
  is one of them (without \<^verbatim>\<open>fullDescription\<close>), and the first page returns all of them
  when the limit covers the collection. With \<^verbatim>\<open>status = all\<close> (and no \<^verbatim>\<open>featured\<close> filter)
  the documents found are all events, whatever their status: drafts and cancelled events
  are listed to any caller.
\<close>

theorem getEvents_status_filter:
  assumes skip: "0 \<le> (or_else (q_page q) 1 - 1) * or_else (q_limit q) 20"
  shows "resolve GET [] =
           Some \<lparr>r_method = GET, r_path = [], r_protect = False, r_handler = H_getEvents\<rparr> \<and>
         Event_find (getEvents_filter q) d =
           filter (\<lambda>e. (or_else (q_status q) ''published'' = ''all'' \<or>
                        status_name (status e) = or_else (q_status q) ''published'') \<and>
                       (q_featured q = Some ''true'' \<longrightarrow> featured e)) (events d) \<and>
         (\<exists>evs pg.
            getEvents q d = json 200 True [] (EventList evs pg) \<and>
            total_count pg = length (Event_find (getEvents_filter q) d) \<and>
            set evs \<subseteq> select_without_fullDescription ` set (Event_find (getEvents_filter q) d) \<and>
            ((or_else (q_page q) 1 - 1) * or_else (q_limit q) 20 = 0 \<and>
             (or_else (q_limit q) 20 = 0 \<or>
              int (length (events d)) \<le> \<bar>or_else (q_limit q) 20\<bar>) \<longrightarrow>
               set evs =
                 select_without_fullDescription ` set (Event_find (getEvents_filter q) d))) \<and>
         (q_status q = Some ''all'' \<and> q_featured q \<noteq> Some ''true'' \<longrightarrow>
            Event_find (getEvents_filter q) d = events d)"
proof -
  let ?P = "\<lambda>e. (or_else (q_status q) ''published'' = ''all'' \<or>
                  status_name (status e) = or_else (q_status q) ''published'') \<and>
                 (q_featured q = Some ''true'' \<longrightarrow> featured e)"
  let ?lim = "or_else (q_limit q) 20"
  let ?skip = "(or_else (q_page q) 1 - 1) * ?lim"
  let ?found = "Event_find (getEvents_filter q) d"
  let ?evs = "map select_without_fullDescription
                (skip_limit (nat ?skip) ?lim (sort_featured_date ?found))"
  let ?pg = "\<lparr>page = or_else (q_page q) 1, limit = ?lim,
              total_count = Event_countDocuments (getEvents_filter q) d,
              pages = (if ?lim = 0 then None
                       else Some (- ((- int (Event_countDocuments (getEvents_filter q) d))
                                      div ?lim)))\<rparr>"
  have route: "resolve GET [] =
           Some \<lparr>r_method = GET, r_path = [], r_protect = False, r_handler = H_getEvents\<rparr>"
    by (simp add: resolve_def eventRoutes_def)
  have found: "?found = filter ?P (events d)"
    unfolding Event_find_def by (rule filter_cong) (simp_all add: matches_getEvents_filter)
  have res: "getEvents q d = json 200 True [] (EventList ?evs ?pg)"
    using skip by (simp add: getEvents_def Let_def)
  have tot: "total_count ?pg = length ?found"
    by (simp add: Event_countDocuments_def)
  have sub: "set ?evs \<subseteq> select_without_fullDescription ` set ?found"
    using set_skip_limit[of "nat ?skip" ?lim "sort_featured_date ?found"] by auto
  have whole: "set ?evs = select_without_fullDescription ` set ?found"
    if "?skip = 0 \<and> (?lim = 0 \<or> int (length (events d)) \<le> \<bar>?lim\<bar>)"
  proof -
    have "int (length (sort_featured_date ?found)) \<le> int (length (events d))"
      by (simp add: found)
    with that
    have "skip_limit (nat ?skip) ?lim (sort_featured_date ?found) = sort_featured_date ?found"
      by (intro skip_limit_whole) auto
    then show ?thesis by simp
  qed
  have all: "?found = events d"
    if "q_status q = Some ''all'' \<and> q_featured q \<noteq> Some ''true''"
    using that by (simp add: found or_else_def)
  from route found res tot sub whole all show ?thesis by blast
qed

text \<open>The theorem at a collection with a published, a draft and a cancelled event, and the
  query \<^verbatim>\<open>?status=all\<close>: all three are found and returned.\<close>

theorem getEvents_status_filter_witness:
  "Event_find (getEvents_filter list_all_statuses) db_three = events db_three \<and>
   map status (events db_three) = [EvPublished, EvDraft, EvCancelled] \<and>
   (\<exists>evs pg.
      getEvents list_all_statuses db_three = json 200 True [] (EventList evs pg) \<and>
      total_count pg = 3 \<and>
      set evs = select_without_fullDescription ` set (events db_three))"
proof -
  have h: "0 \<le> (or_else (q_page list_all_statuses) 1 - 1) * or_else (q_limit list_all_statuses) 20"
    by code_simp
  have a: "q_status list_all_statuses = Some ''all'' \<and> q_featured list_all_statuses \<noteq> Some ''true''"
    by code_simp
  have b: "(or_else (q_page list_all_statuses) 1 - 1) * or_else (q_limit list_all_statuses) 20 = 0 \<and>
           (or_else (q_limit list_all_statuses) 20 = 0 \<or>
            int (length (events db_three)) \<le> \<bar>or_else (q_limit list_all_statuses) 20\<bar>)"
    by code_simp
  have c: "map status (events db_three) = [EvPublished, EvDraft, EvCancelled]" by code_simp
  have l: "length (events db_three) = 3" by code_simp
  from getEvents_status_filter[OF h, of db_three] a b
  have e: "Event_find (getEvents_filter list_all_statuses) db_three = events db_three"
    and x: "\<exists>evs pg.
      getEvents list_all_statuses db_three = json 200 True [] (EventList evs pg) \<and>
      total_count pg = length (Event_find (getEvents_filter list_all_statuses) db_three) \<and>
      set evs = select_without_fullDescription `
        set (Event_find (getEvents_filter list_all_statuses) db_three)"
    by blast+
  from x e l c show ?thesis by simp
qed

end
